theory Spec2Isabelle
  imports Main "HOL-Library.Sublist"
begin

section \<open>Repository rules: data model\<close>

text \<open>
  Shallow embedding of \<^verbatim>\<open>app/src/lib/helpers/repo-rules.ts\<close>.  JavaScript strings are
  modelled as \<^typ>\<open>string\<close>, ruleset ids as \<^typ>\<open>int\<close>, \<^verbatim>\<open>undefined\<close>/\<^verbatim>\<open>null\<close> as
  \<^const>\<open>None\<close>, and a thrown exception as the left summand of a sum type.
\<close>

text \<open>
  Modelled from the spec: the API types \<^verbatim>\<open>APIRepoRuleType\<close>,
  \<^verbatim>\<open>APIRepoRuleMetadataOperator\<close>, \<^verbatim>\<open>IAPIRepoRuleMetadataParameters\<close>, \<^verbatim>\<open>IAPIRepoRule\<close> and
  \<^verbatim>\<open>IAPIRepoRuleset\<close> are declared in \<^verbatim>\<open>lib/api\<close>; they are given here with the members
  that \<^verbatim>\<open>repo-rules.ts\<close> reads.  The rule types are those the \<^verbatim>\<open>switch\<close> of
  \<^verbatim>\<open>parseRepoRules\<close> names; every other value the API may deliver is \<open>OtherRuleType\<close>.
\<close>

datatype APIRepoRuleType =
    Update
  | RequiredDeployments
  | RequiredSignatures
  | RequiredStatusChecks
  | Creation
  | PullRequest
  | CommitMessagePattern
  | CommitAuthorEmailPattern
  | CommitterEmailPattern
  | BranchNamePattern
  | OtherRuleType string

text \<open>The operators the \<^verbatim>\<open>switch\<close> of \<^verbatim>\<open>toMatcher\<close> names; every other value is
  \<open>OtherOperator\<close>.\<close>

datatype APIRepoRuleMetadataOperator =
    StartsWith
  | EndsWith
  | Contains
  | RegexMatch
  | OtherOperator string

record IAPIRepoRuleMetadataParameters =
  operator :: APIRepoRuleMetadataOperator
  pattern :: string
  negate :: bool

record IAPIRepoRule =
  ruleset_id :: int
  type :: APIRepoRuleType
  parameters :: "IAPIRepoRuleMetadataParameters option"

text \<open>\<^verbatim>\<open>rs.conditions?.ref_name?.include\<close>: every level of the path may be absent.\<close>

record IAPIRepoRulesetConditionsRefName =
  "include" :: "string list option"
  exclude :: "string list option"

record IAPIRepoRulesetConditions =
  ref_name :: "IAPIRepoRulesetConditionsRefName option"

record IAPIRepoRuleset =
  current_user_can_bypass :: string
  conditions :: "IAPIRepoRulesetConditions option"

text \<open>\<^verbatim>\<open>RepoRuleEnforced = boolean | 'bypass'\<close>: \<open>NotEnforced\<close> is \<^verbatim>\<open>false\<close>,
  \<open>Enforced\<close> is \<^verbatim>\<open>true\<close>.\<close>

datatype RepoRuleEnforced = NotEnforced | Bypass | Enforced

text \<open>The ordering of the enforcement levels: enforced above bypass above not present.\<close>

fun strictness :: "RepoRuleEnforced \<Rightarrow> nat" where
  "strictness NotEnforced = 0"
| "strictness Bypass = 1"
| "strictness Enforced = 2"

type_synonym RepoRulesMetadataMatcher = "string \<Rightarrow> bool"

record IRepoRulesMetadataRule =
  enforced :: RepoRuleEnforced
  matcher :: RepoRulesMetadataMatcher
  humanDescription :: string
  rulesetId :: int

text \<open>
  Modelled from the spec: the class \<^verbatim>\<open>RepoRulesInfo\<close> is declared in
  \<^verbatim>\<open>models/repo-rules\<close>.  It has three enforcement fields, which start at \<^verbatim>\<open>false\<close>, and
  four ordered pattern lists, which start empty.  Each list records the arguments that
  \<^verbatim>\<open>parseRepoRules\<close> passes to its \<^verbatim>\<open>push\<close>, in order; \<^const>\<open>None\<close> is a pushed
  \<^verbatim>\<open>undefined\<close>.
\<close>

record RepoRulesInfo =
  basicCommitWarning :: RepoRuleEnforced
  creationRestricted :: RepoRuleEnforced
  pullRequestRequired :: RepoRuleEnforced
  commitMessagePatterns :: "IRepoRulesMetadataRule option list"
  commitAuthorEmailPatterns :: "IRepoRulesMetadataRule option list"
  committerEmailPatterns :: "IRepoRulesMetadataRule option list"
  branchNamePatterns :: "IRepoRulesMetadataRule option list"

definition new_RepoRulesInfo :: RepoRulesInfo where
  "new_RepoRulesInfo =
     \<lparr> basicCommitWarning = NotEnforced, creationRestricted = NotEnforced,
       pullRequestRequired = NotEnforced, commitMessagePatterns = [],
       commitAuthorEmailPatterns = [], committerEmailPatterns = [],
       branchNamePatterns = [] \<rparr>"

text \<open>The three enforcement fields of the summary, and the rule types that the
  \<^verbatim>\<open>switch\<close> of \<^verbatim>\<open>parseRepoRules\<close> merges into each of them.\<close>

datatype category = BasicCommitWarning | CreationRestricted | PullRequestRequired

fun simple_category :: "APIRepoRuleType \<Rightarrow> category option" where
  "simple_category Update = Some BasicCommitWarning"
| "simple_category RequiredDeployments = Some BasicCommitWarning"
| "simple_category RequiredSignatures = Some BasicCommitWarning"
| "simple_category RequiredStatusChecks = Some BasicCommitWarning"
| "simple_category Creation = Some CreationRestricted"
| "simple_category PullRequest = Some PullRequestRequired"
| "simple_category _ = None"

fun enforcement :: "RepoRulesInfo \<Rightarrow> category \<Rightarrow> RepoRuleEnforced" where
  "enforcement info BasicCommitWarning = basicCommitWarning info"
| "enforcement info CreationRestricted = creationRestricted info"
| "enforcement info PullRequestRequired = pullRequestRequired info"

text \<open>The enforcement level of one rule instance:
  \<^verbatim>\<open>ruleset.current_user_can_bypass === 'always' ? 'bypass' : true\<close>\<close>

definition enforced_of :: "IAPIRepoRuleset \<Rightarrow> RepoRuleEnforced" where
  "enforced_of ruleset =
     (if current_user_can_bypass ruleset = ''always'' then Bypass else Enforced)"

section \<open>The two libraries\<close>

text \<open>
  \<^verbatim>\<open>re2js\<close> and \<^verbatim>\<open>minimatch\<close> are third-party packages; the functions below take them as
  parameters.  A compiled \<^verbatim>\<open>RE2JS\<close> object is only ever used through
  \<^verbatim>\<open>regex.matcher(s).find()\<close>, so it is represented by that predicate.
  \<^verbatim>\<open>RE2JS.compile\<close> throws on a pattern it cannot parse.
\<close>

datatype error = RE2JSSyntaxException string

record RE2JS =
  compile :: "string \<Rightarrow> error + (string \<Rightarrow> bool)"
  quote :: "string \<Rightarrow> string"

text \<open>\<^verbatim>\<open>minimatch.match(list, pattern, REPO_RULES_MINIMATCH_OPTIONS)\<close>, the options being
  fixed by the source.\<close>

type_synonym minimatch_match = "string list \<Rightarrow> string \<Rightarrow> string list"

section \<open>Pattern matcher: metadata rules\<close>

definition dquote :: char where
  "dquote = CHR 0x22"

text \<open>The \<^verbatim>\<open>switch\<close> of \<^verbatim>\<open>toMatcher\<close>: the regex, when an arm assigns one.\<close>

definition toMatcher_regex ::
  "RE2JS \<Rightarrow> IAPIRepoRuleMetadataParameters \<Rightarrow> error + (string \<Rightarrow> bool) option" where
  "toMatcher_regex re rule =
     (case operator rule of
        StartsWith \<Rightarrow> map_sum (\<lambda>e. e) Some (compile re (''^'' @ quote re (pattern rule)))
      | EndsWith \<Rightarrow> map_sum (\<lambda>e. e) Some (compile re (quote re (pattern rule) @ ''$''))
      | Contains \<Rightarrow>
          map_sum (\<lambda>e. e) Some (compile re (''.*'' @ quote re (pattern rule) @ ''.*''))
      | RegexMatch \<Rightarrow> map_sum (\<lambda>e. e) Some (compile re (pattern rule))
      | OtherOperator _ \<Rightarrow> Inr None)"

definition toMatcher ::
  "RE2JS \<Rightarrow> IAPIRepoRuleMetadataParameters option \<Rightarrow> error + RepoRulesMetadataMatcher" where
  "toMatcher re rule =
     (case rule of
        None \<Rightarrow> Inr (\<lambda>_. False)
      | Some r \<Rightarrow>
          (case toMatcher_regex re r of
             Inl e \<Rightarrow> Inl e
           | Inr (Some regex) \<Rightarrow>
               if negate r then Inr (\<lambda>toMatch. \<not> regex toMatch)
               else Inr (\<lambda>toMatch. regex toMatch)
           | Inr None \<Rightarrow> Inr (\<lambda>_. False)))"

definition toHumanDescription :: "IAPIRepoRuleMetadataParameters \<Rightarrow> string" where
  "toHumanDescription apiParams =
     (let description = ''must '' @ (if negate apiParams then ''not '' else '''')
      in if operator apiParams = RegexMatch
         then description @ ''match the regular expression '' @ [dquote]
                @ pattern apiParams @ [dquote]
         else (case operator apiParams of
                 StartsWith \<Rightarrow> description @ ''start with ''
               | EndsWith \<Rightarrow> description @ ''end with ''
               | Contains \<Rightarrow> description @ ''contain ''
               | _ \<Rightarrow> description)
              @ [dquote] @ pattern apiParams @ [dquote])"

definition toMetadataRule ::
  "RE2JS \<Rightarrow> IAPIRepoRule option \<Rightarrow> RepoRuleEnforced
     \<Rightarrow> error + IRepoRulesMetadataRule option" where
  "toMetadataRule re rule enf =
     (case rule of
        None \<Rightarrow> Inr None
      | Some r \<Rightarrow>
          (case parameters r of
             None \<Rightarrow> Inr None
           | Some ps \<Rightarrow>
               (case toMatcher re (Some ps) of
                  Inl e \<Rightarrow> Inl e
                | Inr m \<Rightarrow>
                    Inr (Some \<lparr> enforced = enf, matcher = m,
                                humanDescription = toHumanDescription ps,
                                rulesetId = ruleset_id r \<rparr>))))"

section \<open>Rule aggregator\<close>

text \<open>\<^verbatim>\<open>info.x = info.x !== true ? enforced : true\<close>\<close>

definition merge_enforced :: "RepoRuleEnforced \<Rightarrow> RepoRuleEnforced \<Rightarrow> RepoRuleEnforced" where
  "merge_enforced old enf = (if old \<noteq> Enforced then enf else Enforced)"

text \<open>The body of the loop of \<^verbatim>\<open>parseRepoRules\<close> after the ruleset has been found.\<close>

definition parseRepoRules_rule ::
  "RE2JS \<Rightarrow> IAPIRepoRule \<Rightarrow> IAPIRepoRuleset \<Rightarrow> RepoRulesInfo \<Rightarrow> error + RepoRulesInfo" where
  "parseRepoRules_rule re rule ruleset info =
     (let enf = enforced_of ruleset;
          push = (\<lambda>upd. map_sum (\<lambda>e. e) upd (toMetadataRule re (Some rule) enf))
      in case type rule of
           Update \<Rightarrow>
             Inr (info\<lparr>basicCommitWarning := merge_enforced (basicCommitWarning info) enf\<rparr>)
         | RequiredDeployments \<Rightarrow>
             Inr (info\<lparr>basicCommitWarning := merge_enforced (basicCommitWarning info) enf\<rparr>)
         | RequiredSignatures \<Rightarrow>
             Inr (info\<lparr>basicCommitWarning := merge_enforced (basicCommitWarning info) enf\<rparr>)
         | RequiredStatusChecks \<Rightarrow>
             Inr (info\<lparr>basicCommitWarning := merge_enforced (basicCommitWarning info) enf\<rparr>)
         | Creation \<Rightarrow>
             Inr (info\<lparr>creationRestricted := merge_enforced (creationRestricted info) enf\<rparr>)
         | PullRequest \<Rightarrow>
             Inr (info\<lparr>pullRequestRequired := merge_enforced (pullRequestRequired info) enf\<rparr>)
         | CommitMessagePattern \<Rightarrow>
             push (\<lambda>m. info\<lparr>commitMessagePatterns := commitMessagePatterns info @ [m]\<rparr>)
         | CommitAuthorEmailPattern \<Rightarrow>
             push (\<lambda>m. info\<lparr>commitAuthorEmailPatterns :=
                               commitAuthorEmailPatterns info @ [m]\<rparr>)
         | CommitterEmailPattern \<Rightarrow>
             push (\<lambda>m. info\<lparr>committerEmailPatterns := committerEmailPatterns info @ [m]\<rparr>)
         | BranchNamePattern \<Rightarrow>
             push (\<lambda>m. info\<lparr>branchNamePatterns := branchNamePatterns info @ [m]\<rparr>)
         | OtherRuleType _ \<Rightarrow> Inr info)"

text \<open>
  The \<^verbatim>\<open>for\<close> loop of \<^verbatim>\<open>parseRepoRules\<close>.  The \<^verbatim>\<open>ReadonlyMap\<close> of rulesets is an
  association list in insertion order: \<^verbatim>\<open>get\<close> is \<^const>\<open>map_of\<close>, \<^verbatim>\<open>values()\<close> is
  \<^term>\<open>map snd\<close>.  A map is such a list with distinct keys; nothing below needs the keys to
  be distinct.
\<close>

fun parseRepoRules_loop ::
  "RE2JS \<Rightarrow> IAPIRepoRule list \<Rightarrow> (int \<times> IAPIRepoRuleset) list \<Rightarrow> RepoRulesInfo
     \<Rightarrow> error + RepoRulesInfo" where
  "parseRepoRules_loop re [] rulesets info = Inr info"
| "parseRepoRules_loop re (rule # rules) rulesets info =
     (case map_of rulesets (ruleset_id rule) of
        None \<Rightarrow> parseRepoRules_loop re rules rulesets info
      | Some ruleset \<Rightarrow>
          (case parseRepoRules_rule re rule ruleset info of
             Inl e \<Rightarrow> Inl e
           | Inr info' \<Rightarrow> parseRepoRules_loop re rules rulesets info'))"

definition parseRepoRules ::
  "RE2JS \<Rightarrow> IAPIRepoRule list \<Rightarrow> (int \<times> IAPIRepoRuleset) list \<Rightarrow> error + RepoRulesInfo" where
  "parseRepoRules re rules rulesets = parseRepoRules_loop re rules rulesets new_RepoRulesInfo"

section \<open>Ruleset selector\<close>

fun branchNameMatchesPatterns_loop ::
  "minimatch_match \<Rightarrow> string \<Rightarrow> string list \<Rightarrow> string option \<Rightarrow> bool \<Rightarrow> bool" where
  "branchNameMatchesPatterns_loop mm branchName [] defaultBranchName matchKeywords = False"
| "branchNameMatchesPatterns_loop mm branchName (p # ps) defaultBranchName matchKeywords =
     (if matchKeywords \<and>
         (p = ''~ALL'' \<or>
          (p = ''~DEFAULT'' \<and>
           (case defaultBranchName of
              None \<Rightarrow> False
            | Some d \<Rightarrow> d \<noteq> '''' \<and> d = branchName)))
      then True
      else if length (mm [branchName] p) > 0 then True
      else branchNameMatchesPatterns_loop mm branchName ps defaultBranchName matchKeywords)"

definition branchNameMatchesPatterns ::
  "minimatch_match \<Rightarrow> string \<Rightarrow> string list option \<Rightarrow> string option \<Rightarrow> bool \<Rightarrow> bool" where
  "branchNameMatchesPatterns mm branchName patterns defaultBranchName matchKeywords =
     branchNameMatchesPatterns_loop mm branchName
       (case patterns of None \<Rightarrow> [] | Some ps \<Rightarrow> ps) defaultBranchName matchKeywords"

text \<open>\<^verbatim>\<open>rs.conditions?.ref_name?.include\<close> and \<^verbatim>\<open>rs.conditions?.ref_name?.exclude\<close>\<close>

definition included_of :: "IAPIRepoRuleset \<Rightarrow> string list option" where
  "included_of rs =
     (case conditions rs of
        None \<Rightarrow> None
      | Some c \<Rightarrow> (case ref_name c of None \<Rightarrow> None | Some rn \<Rightarrow> include rn))"

definition excluded_of :: "IAPIRepoRuleset \<Rightarrow> string list option" where
  "excluded_of rs =
     (case conditions rs of
        None \<Rightarrow> None
      | Some c \<Rightarrow> (case ref_name c of None \<Rightarrow> None | Some rn \<Rightarrow> exclude rn))"

text \<open>\<^verbatim>\<open>!patterns || patterns.length === 0\<close>\<close>

definition no_patterns :: "string list option \<Rightarrow> bool" where
  "no_patterns ps = (case ps of None \<Rightarrow> True | Some l \<Rightarrow> length l = 0)"

fun getRulesets_loop ::
  "minimatch_match \<Rightarrow> string \<Rightarrow> IAPIRepoRuleset list \<Rightarrow> string option
     \<Rightarrow> IAPIRepoRuleset list \<Rightarrow> IAPIRepoRuleset list" where
  "getRulesets_loop mm branchName [] defaultBranchName applicableRulesets = applicableRulesets"
| "getRulesets_loop mm branchName (rs # rest) defaultBranchName applicableRulesets =
     (let included = included_of rs; excluded = excluded_of rs
      in if no_patterns included \<and> no_patterns excluded
         then getRulesets_loop mm branchName rest defaultBranchName applicableRulesets
         else if \<not> branchNameMatchesPatterns mm branchName included defaultBranchName True
         then getRulesets_loop mm branchName rest defaultBranchName applicableRulesets
         else if \<not> branchNameMatchesPatterns mm branchName excluded defaultBranchName False
         then getRulesets_loop mm branchName rest defaultBranchName (applicableRulesets @ [rs])
         else getRulesets_loop mm branchName rest defaultBranchName applicableRulesets)"

definition getRulesetsApplicableToBranchName ::
  "minimatch_match \<Rightarrow> string \<Rightarrow> (int \<times> IAPIRepoRuleset) list \<Rightarrow> string option
     \<Rightarrow> IAPIRepoRuleset list" where
  "getRulesetsApplicableToBranchName mm branchName rulesets defaultBranchName =
     (if branchName = '''' \<or> length rulesets = 0 then []
      else getRulesets_loop mm branchName (map snd rulesets) defaultBranchName [])"

section \<open>Instances of the two libraries\<close>

text \<open>
  Modelled from the spec: the \<^verbatim>\<open>re2js\<close> package is not part of the repository.  This is
  what the spec's table of operators says of the three regular expressions that
  \<^verbatim>\<open>toMatcher\<close> builds from a quoted pattern: \<^verbatim>\<open>^\<close> followed by the quoted pattern finds a
  match exactly in the strings that begin with the pattern, the quoted pattern followed by
  \<^verbatim>\<open>$\<close> exactly in those that end with it, and the quoted pattern between two \<^verbatim>\<open>.*\<close>
  exactly in those that contain it.
\<close>

definition RE2JS_literal_semantics :: "RE2JS \<Rightarrow> bool" where
  "RE2JS_literal_semantics re \<longleftrightarrow>
     (\<forall>p. compile re (''^'' @ quote re p) = Inr (\<lambda>s. prefix p s)
        \<and> compile re (quote re p @ ''$'') = Inr (\<lambda>s. suffix p s)
        \<and> compile re (''.*'' @ quote re p @ ''.*'') = Inr (\<lambda>s. sublist p s))"

definition backslash :: char where
  "backslash = CHR 0x5C"

definition metacharacters :: string where
  "metacharacters = backslash # ''.+*?()|[]{}^$''"

text \<open>Quoting puts a backslash before every metacharacter.\<close>

definition quoteMeta :: "string \<Rightarrow> string" where
  "quoteMeta s =
     concat (map (\<lambda>c. if c \<in> set metacharacters then [backslash, c] else [c]) s)"

text \<open>Reading a quoted literal back; \<^const>\<open>None\<close> when a metacharacter stands unquoted.\<close>

fun unquoteMeta :: "string \<Rightarrow> string option" where
  "unquoteMeta [] = Some []"
| "unquoteMeta [c] = (if c \<in> set metacharacters then None else Some [c])"
| "unquoteMeta (c # d # r) =
     (if c = backslash
      then (if d \<in> set metacharacters then map_option (\<lambda>p. d # p) (unquoteMeta r) else None)
      else if c \<in> set metacharacters then None
      else map_option (\<lambda>p. c # p) (unquoteMeta (d # r)))"

text \<open>
  An engine for literals only, which satisfies \<^const>\<open>RE2JS_literal_semantics\<close> and serves to
  run the functions above on concrete inputs: it compiles a quoted literal, alone, after
  \<^verbatim>\<open>^\<close>, before \<^verbatim>\<open>$\<close> or between two \<^verbatim>\<open>.*\<close>, and rejects every other pattern as a
  syntax error, among them the unbalanced \<^verbatim>\<open>(\<close> and \<^verbatim>\<open>[a-z\<close>.
\<close>

definition literal_compile :: "string \<Rightarrow> error + (string \<Rightarrow> bool)" where
  "literal_compile r =
     (case unquoteMeta r of
        Some p \<Rightarrow> Inr (\<lambda>s. sublist p s)
      | None \<Rightarrow>
          (case (if r \<noteq> [] \<and> hd r = CHR ''^'' then unquoteMeta (tl r) else None) of
             Some p \<Rightarrow> Inr (\<lambda>s. prefix p s)
           | None \<Rightarrow>
               (case (if r \<noteq> [] \<and> last r = CHR ''$'' then unquoteMeta (butlast r) else None) of
                  Some p \<Rightarrow> Inr (\<lambda>s. suffix p s)
                | None \<Rightarrow>
                    (case (if 4 \<le> length r \<and> take 2 r = ''.*''
                              \<and> drop (length r - 2) r = ''.*''
                           then unquoteMeta (take (length r - 4) (drop 2 r)) else None) of
                       Some p \<Rightarrow> Inr (\<lambda>s. sublist p s)
                     | None \<Rightarrow> Inl (RE2JSSyntaxException r)))))"

definition literal_RE2JS :: RE2JS where
  "literal_RE2JS = \<lparr> compile = literal_compile, quote = quoteMeta \<rparr>"

text \<open>
  Modelled from the spec: the \<^verbatim>\<open>minimatch\<close> package is not part of the repository.  A glob
  matcher for patterns made of literal characters, \<^verbatim>\<open>?\<close> and \<^verbatim>\<open>*\<close>, neither of which
  matches a slash; it serves to run the selector on concrete inputs.
\<close>

fun fnmatch :: "string \<Rightarrow> string \<Rightarrow> bool" where
  "fnmatch [] [] = True"
| "fnmatch [] (x # xs) = False"
| "fnmatch (c # p) [] = (c = CHR ''*'' \<and> fnmatch p [])"
| "fnmatch (c # p) (x # xs) =
     (if c = CHR ''*'' then fnmatch p (x # xs) \<or> (x \<noteq> CHR ''/'' \<and> fnmatch (c # p) xs)
      else (if c = CHR ''?'' then x \<noteq> CHR ''/'' else x = c) \<and> fnmatch p xs)"

definition fnmatch_match :: minimatch_match where
  "fnmatch_match list p = filter (\<lambda>f. fnmatch p f) list"

section \<open>Properties of the rule aggregator\<close>

lemma rule_step_enforcement:
  assumes "parseRepoRules_rule re rule ruleset info = Inr info'"
  shows "enforcement info' c =
     (if simple_category (type rule) = Some c
      then merge_enforced (enforcement info c) (enforced_of ruleset)
      else enforcement info c)"
  using assms
  by (cases "type rule"; cases c)
     (auto simp: parseRepoRules_rule_def Let_def map_sum_def split: sum.splits)

text \<open>What the loop leaves in an enforcement field, whenever it returns a summary.\<close>

lemma loop_enforcement:
  assumes "parseRepoRules_loop re rules rulesets info0 = Inr info"
  shows "enforcement info c =
     (if enforcement info0 c = Enforced \<or>
         (\<exists>r\<in>set rules. simple_category (type r) = Some c \<and>
            (\<exists>rs. map_of rulesets (ruleset_id r) = Some rs \<and> enforced_of rs = Enforced))
      then Enforced
      else if (\<exists>r\<in>set rules. simple_category (type r) = Some c \<and>
            (\<exists>rs. map_of rulesets (ruleset_id r) = Some rs))
      then Bypass
      else enforcement info0 c)"
  using assms
proof (induction rules arbitrary: info0)
  case Nil
  then show ?case by auto
next
  case (Cons rule rules)
  show ?case
  proof (cases "map_of rulesets (ruleset_id rule)")
    case None
    with Cons.prems have "parseRepoRules_loop re rules rulesets info0 = Inr info" by simp
    from Cons.IH[OF this] None show ?thesis by auto
  next
    case (Some rs)
    with Cons.prems obtain info1 where
      s: "parseRepoRules_rule re rule rs info0 = Inr info1" and
      l: "parseRepoRules_loop re rules rulesets info1 = Inr info"
      by (auto split: sum.splits)
    have e: "enforced_of rs = Bypass \<or> enforced_of rs = Enforced"
      by (simp add: enforced_of_def)
    show ?thesis
      using Cons.IH[OF l] rule_step_enforcement[OF s, of c] Some e
      by (auto simp: merge_enforced_def split: if_splits)
  qed
qed

lemma loop_drop_unknown:
  assumes "map_of rulesets (ruleset_id r) = None"
  shows "parseRepoRules_loop re (xs @ r # ys) rulesets info =
         parseRepoRules_loop re (xs @ ys) rulesets info"
  using assms
  by (induction xs arbitrary: info) (auto split: option.splits sum.splits)

lemma loop_append:
  "parseRepoRules_loop re (xs @ ys) rulesets info =
     (case parseRepoRules_loop re xs rulesets info of
        Inl e \<Rightarrow> Inl e
      | Inr info' \<Rightarrow> parseRepoRules_loop re ys rulesets info')"
  by (induction xs arbitrary: info) (auto split: option.splits sum.splits)

text \<open>
  C2.  Take two rule instances of the same simple category (basic commit warning, creation
  restricted or pull request required), each with its ruleset in the map, the first
  ruleset with bypass capability exactly \<^verbatim>\<open>always\<close> and the second with any other.  Then
  \<^verbatim>\<open>parseRepoRules\<close> on the pair, in either order, returns a summary whose field for that
  category is the strict value \<^verbatim>\<open>true\<close>, not \<^verbatim>\<open>'bypass'\<close>.
\<close>

theorem parseRepoRules_strictest_wins:
  assumes "simple_category (type r1) = Some c"
    and "simple_category (type r2) = Some c"
    and "map_of rulesets (ruleset_id r1) = Some rs1"
    and "map_of rulesets (ruleset_id r2) = Some rs2"
    and "current_user_can_bypass rs1 = ''always''"
    and "current_user_can_bypass rs2 \<noteq> ''always''"
  shows "(\<exists>info. parseRepoRules re [r1, r2] rulesets = Inr info
            \<and> enforcement info c = Enforced)
       \<and> (\<exists>info. parseRepoRules re [r2, r1] rulesets = Inr info
            \<and> enforcement info c = Enforced)"
proof -
  have simple: "\<exists>info'. parseRepoRules_rule re r rs info = Inr info'"
    if "simple_category (type r) = Some c" for r rs info
    using that by (cases "type r") (simp_all add: parseRepoRules_rule_def Let_def)
  have two: "\<exists>info. parseRepoRules re [a, b] rulesets = Inr info"
    if h: "simple_category (type a) = Some c" "simple_category (type b) = Some c"
       "map_of rulesets (ruleset_id a) = Some ra" "map_of rulesets (ruleset_id b) = Some rb"
    for a b ra rb
  proof -
    obtain i1 where i1: "parseRepoRules_rule re a ra new_RepoRulesInfo = Inr i1"
      using simple[OF h(1)] by blast
    obtain i2 where i2: "parseRepoRules_rule re b rb i1 = Inr i2"
      using simple[OF h(2)] by blast
    show ?thesis using h i1 i2 by (simp add: parseRepoRules_def)
  qed
  have strict: "enforced_of rs2 = Enforced"
    using assms(6) by (simp add: enforced_of_def)
  have lvl: "enforcement info c = Enforced"
    if "parseRepoRules re rules rulesets = Inr info" "r2 \<in> set rules" for rules info
    using loop_enforcement[OF that(1)[unfolded parseRepoRules_def], of c] that(2)
      assms(2,4) strict
    by auto
  show ?thesis
    using two[OF assms(1,2,3,4)] two[OF assms(2,1,4,3)] lvl by fastforce
qed

theorem parseRepoRules_strictest_wins_witness:
  "(\<exists>info. parseRepoRules literal_RE2JS
       [\<lparr> ruleset_id = 1, type = Update, parameters = None \<rparr>,
        \<lparr> ruleset_id = 2, type = RequiredSignatures, parameters = None \<rparr>]
       [(1, \<lparr> current_user_can_bypass = ''always'', conditions = None \<rparr>),
        (2, \<lparr> current_user_can_bypass = ''pull_requests_only'', conditions = None \<rparr>)]
       = Inr info \<and> enforcement info BasicCommitWarning = Enforced)
   \<and> (\<exists>info. parseRepoRules literal_RE2JS
       [\<lparr> ruleset_id = 2, type = RequiredSignatures, parameters = None \<rparr>,
        \<lparr> ruleset_id = 1, type = Update, parameters = None \<rparr>]
       [(1, \<lparr> current_user_can_bypass = ''always'', conditions = None \<rparr>),
        (2, \<lparr> current_user_can_bypass = ''pull_requests_only'', conditions = None \<rparr>)]
       = Inr info \<and> enforcement info BasicCommitWarning = Enforced)"
  using
    parseRepoRules_strictest_wins
      [of "\<lparr> ruleset_id = 1, type = Update, parameters = None \<rparr>" BasicCommitWarning
      "\<lparr> ruleset_id = 2, type = RequiredSignatures, parameters = None \<rparr>"
      "[(1, \<lparr> current_user_can_bypass = ''always'', conditions = None \<rparr>),
        (2, \<lparr> current_user_can_bypass = ''pull_requests_only'', conditions = None \<rparr>)]"
      "\<lparr> current_user_can_bypass = ''always'', conditions = None \<rparr>"
      "\<lparr> current_user_can_bypass = ''pull_requests_only'', conditions = None \<rparr>"
      literal_RE2JS]
  by simp

text \<open>
  C3.  Enforcement merging is monotonic.  When every rule instance of a list occurs in a
  second list, and \<^verbatim>\<open>parseRepoRules\<close> returns a summary for both, then for each of the three
  categories the level of the second summary is at least the level of the first, in the
  order enforced above bypass above not present.
\<close>

theorem parseRepoRules_merge_monotonic:
  assumes "set rules \<subseteq> set rules'"
    and "parseRepoRules re rules rulesets = Inr info"
    and "parseRepoRules re rules' rulesets = Inr info'"
  shows "strictness (enforcement info c) \<le> strictness (enforcement info' c)"
proof -
  have z: "enforcement new_RepoRulesInfo c = NotEnforced"
    by (cases c) (simp_all add: new_RepoRulesInfo_def)
  show ?thesis
    using assms(1)
      loop_enforcement[OF assms(2)[unfolded parseRepoRules_def], of c]
      loop_enforcement[OF assms(3)[unfolded parseRepoRules_def], of c]
    unfolding z
    by (auto split: if_splits)
qed

theorem parseRepoRules_merge_monotonic_witness:
  "parseRepoRules literal_RE2JS
     [\<lparr> ruleset_id = 1, type = Creation, parameters = None \<rparr>]
     [(1, \<lparr> current_user_can_bypass = ''always'', conditions = None \<rparr>),
      (2, \<lparr> current_user_can_bypass = ''never'', conditions = None \<rparr>)]
   = Inr (new_RepoRulesInfo\<lparr>creationRestricted := Bypass\<rparr>)
   \<and> parseRepoRules literal_RE2JS
     [\<lparr> ruleset_id = 2, type = Creation, parameters = None \<rparr>,
      \<lparr> ruleset_id = 1, type = Creation, parameters = None \<rparr>]
     [(1, \<lparr> current_user_can_bypass = ''always'', conditions = None \<rparr>),
      (2, \<lparr> current_user_can_bypass = ''never'', conditions = None \<rparr>)]
   = Inr (new_RepoRulesInfo\<lparr>creationRestricted := Enforced\<rparr>)
   \<and> strictness (enforcement (new_RepoRulesInfo\<lparr>creationRestricted := Bypass\<rparr>)
         CreationRestricted)
     \<le> strictness (enforcement (new_RepoRulesInfo\<lparr>creationRestricted := Enforced\<rparr>)
         CreationRestricted)"
proof -
  let ?rulesets = "[(1, \<lparr> current_user_can_bypass = ''always'', conditions = None \<rparr>),
      (2::int, \<lparr> current_user_can_bypass = ''never'', conditions = None \<rparr>)]"
  let ?r1 = "\<lparr> ruleset_id = 1, type = Creation, parameters = None \<rparr>"
  let ?r2 = "\<lparr> ruleset_id = 2, type = Creation, parameters = None \<rparr>"
  have a: "parseRepoRules literal_RE2JS [?r1] ?rulesets
      = Inr (new_RepoRulesInfo\<lparr>creationRestricted := Bypass\<rparr>)"
    by (simp add: parseRepoRules_def parseRepoRules_rule_def merge_enforced_def
        enforced_of_def new_RepoRulesInfo_def)
  have b: "parseRepoRules literal_RE2JS [?r2, ?r1] ?rulesets
      = Inr (new_RepoRulesInfo\<lparr>creationRestricted := Enforced\<rparr>)"
    by (simp add: parseRepoRules_def parseRepoRules_rule_def merge_enforced_def
        enforced_of_def new_RepoRulesInfo_def)
  have s: "set [?r1] \<subseteq> set [?r2, ?r1]" by simp
  show ?thesis
    using a b parseRepoRules_merge_monotonic [OF s a b, of CreationRestricted] by simp
qed

text \<open>
  C4.  A rule whose \<^verbatim>\<open>ruleset_id\<close> is not a key of the ruleset map contributes nothing,
  whatever its type: \<^verbatim>\<open>parseRepoRules\<close> gives the same outcome with the rule as without it,
  so no enforcement field and no pattern list differs.
\<close>

theorem parseRepoRules_unknown_ruleset_dropped:
  assumes "map_of rulesets (ruleset_id r) = None"
  shows "parseRepoRules re (xs @ r # ys) rulesets = parseRepoRules re (xs @ ys) rulesets"
  unfolding parseRepoRules_def by (rule loop_drop_unknown[OF assms])

theorem parseRepoRules_unknown_ruleset_dropped_witness:
  "map_of [(1, \<lparr> current_user_can_bypass = ''never'', conditions = None \<rparr>)] (7::int) = None
   \<and> parseRepoRules literal_RE2JS
     ([\<lparr> ruleset_id = 1, type = Creation, parameters = None \<rparr>]
      @ \<lparr> ruleset_id = 7, type = BranchNamePattern,
          parameters = Some \<lparr> operator = RegexMatch, pattern = ''[a-z'', negate = False \<rparr> \<rparr>
      # [\<lparr> ruleset_id = 1, type = Update, parameters = None \<rparr>])
     [(1, \<lparr> current_user_can_bypass = ''never'', conditions = None \<rparr>)]
   = parseRepoRules literal_RE2JS
     ([\<lparr> ruleset_id = 1, type = Creation, parameters = None \<rparr>]
      @ [\<lparr> ruleset_id = 1, type = Update, parameters = None \<rparr>])
     [(1, \<lparr> current_user_can_bypass = ''never'', conditions = None \<rparr>)]"
  using
    parseRepoRules_unknown_ruleset_dropped
      [of "[(1, \<lparr> current_user_can_bypass = ''never'', conditions = None \<rparr>)]"
      "\<lparr> ruleset_id = 7, type = BranchNamePattern,
         parameters = Some \<lparr> operator = RegexMatch, pattern = ''[a-z'', negate = False \<rparr> \<rparr>"
      literal_RE2JS
      "[\<lparr> ruleset_id = 1, type = Creation, parameters = None \<rparr>]"
      "[\<lparr> ruleset_id = 1, type = Update, parameters = None \<rparr>]"]
  by simp

text \<open>
  C7, amended.  Nothing in \<^verbatim>\<open>parseRepoRules\<close> catches a failure of \<^verbatim>\<open>RE2JS.compile\<close>.  When a
  pattern-typed rule has its ruleset in the map, has parameters, and has a regex-match
  pattern that does not compile, \<^verbatim>\<open>parseRepoRules\<close> returns no summary: it ends with the
  exception of an earlier rule, if the rules before this one already raise one, and with
  this rule's compilation error otherwise.  The rules after it are never evaluated.
\<close>

theorem parseRepoRules_regex_failure_propagates:
  assumes "map_of rulesets (ruleset_id r) = Some rs"
    and "type r \<in> {CommitMessagePattern, CommitAuthorEmailPattern,
                    CommitterEmailPattern, BranchNamePattern}"
    and "parameters r = Some ps"
    and "operator ps = RegexMatch"
    and "compile re (pattern ps) = Inl e"
  shows "parseRepoRules re (xs @ r # ys) rulesets =
           (case parseRepoRules re xs rulesets of Inl e' \<Rightarrow> Inl e' | Inr info \<Rightarrow> Inl e)"
proof -
  have m: "toMetadataRule re (Some r) enf = Inl e" for enf
    using assms(3,4,5)
    by (simp add: toMetadataRule_def toMatcher_def toMatcher_regex_def)
  have "parseRepoRules_rule re r rs info = Inl e" for info
    using assms(2) by (auto simp: parseRepoRules_rule_def Let_def m)
  then show ?thesis
    using assms(1) by (simp add: parseRepoRules_def loop_append split: sum.splits)
qed

theorem parseRepoRules_regex_failure_propagates_witness:
  "parseRepoRules literal_RE2JS
     ([\<lparr> ruleset_id = 1, type = Creation, parameters = None \<rparr>]
      @ \<lparr> ruleset_id = 1, type = BranchNamePattern,
          parameters = Some \<lparr> operator = RegexMatch, pattern = ''[a-z'', negate = False \<rparr> \<rparr>
      # [\<lparr> ruleset_id = 1, type = Update, parameters = None \<rparr>])
     [(1, \<lparr> current_user_can_bypass = ''never'', conditions = None \<rparr>)]
   = Inl (RE2JSSyntaxException ''[a-z'')"
proof -
  have c: "compile literal_RE2JS ''[a-z'' = Inl (RE2JSSyntaxException ''[a-z'')"
    by (simp add: literal_RE2JS_def literal_compile_def metacharacters_def backslash_def)
  have p: "parseRepoRules literal_RE2JS
      [\<lparr> ruleset_id = 1, type = Creation, parameters = None \<rparr>]
      [(1, \<lparr> current_user_can_bypass = ''never'', conditions = None \<rparr>)]
    = Inr (new_RepoRulesInfo\<lparr>creationRestricted := Enforced\<rparr>)"
    by (simp add: parseRepoRules_def parseRepoRules_rule_def merge_enforced_def
        enforced_of_def new_RepoRulesInfo_def)
  show ?thesis
    using
      parseRepoRules_regex_failure_propagates
        [of "[(1, \<lparr> current_user_can_bypass = ''never'', conditions = None \<rparr>)]"
        "\<lparr> ruleset_id = 1, type = BranchNamePattern,
          parameters = Some \<lparr> operator = RegexMatch, pattern = ''[a-z'', negate = False \<rparr> \<rparr>"
        "\<lparr> current_user_can_bypass = ''never'', conditions = None \<rparr>"
        "\<lparr> operator = RegexMatch, pattern = ''[a-z'', negate = False \<rparr>"
        literal_RE2JS "RE2JSSyntaxException ''[a-z''"
        "[\<lparr> ruleset_id = 1, type = Creation, parameters = None \<rparr>]"
        "[\<lparr> ruleset_id = 1, type = Update, parameters = None \<rparr>]"]
      c p
    by simp
qed

text \<open>
  A run in which the failure is not caught: the first rule's pattern \<^verbatim>\<open>(\<close> does not
  compile, and \<^verbatim>\<open>parseRepoRules\<close> ends with the exception of \<^verbatim>\<open>RE2JS.compile\<close> instead of
  a summary; the rule after it is not evaluated.
\<close>

theorem parseRepoRules_regex_failure_counterexample:
  "parseRepoRules literal_RE2JS
     [\<lparr> ruleset_id = 1, type = CommitMessagePattern,
        parameters = Some \<lparr> operator = RegexMatch, pattern = ''('', negate = False \<rparr> \<rparr>,
      \<lparr> ruleset_id = 1, type = Creation, parameters = None \<rparr>]
     [(1, \<lparr> current_user_can_bypass = ''never'', conditions = None \<rparr>)]
   = Inl (RE2JSSyntaxException ''('')"
  by (simp add: parseRepoRules_def parseRepoRules_rule_def toMetadataRule_def toMatcher_def
      toMatcher_regex_def literal_RE2JS_def literal_compile_def metacharacters_def)

section \<open>Properties of the ruleset selector\<close>

lemma matches_loop_iff:
  "branchNameMatchesPatterns_loop mm b ps d k \<longleftrightarrow>
     (\<exists>p\<in>set ps.
        (k \<and> (p = ''~ALL'' \<or> (p = ''~DEFAULT'' \<and> b \<noteq> [] \<and> d = Some b)))
        \<or> 0 < length (mm [b] p))"
  by (induction ps) (auto split: option.splits)

lemma no_patterns_no_match:
  "no_patterns ps \<Longrightarrow> \<not> branchNameMatchesPatterns mm b ps d k"
  by (auto simp: no_patterns_def branchNameMatchesPatterns_def split: option.splits)

lemma getRulesets_loop_filter:
  "getRulesets_loop mm b rss d acc =
     acc @ filter (\<lambda>rs. branchNameMatchesPatterns mm b (included_of rs) d True
                     \<and> \<not> branchNameMatchesPatterns mm b (excluded_of rs) d False) rss"
proof (induction rss arbitrary: acc)
  case Nil
  then show ?case by simp
next
  case (Cons rs rss)
  then show ?case
    using no_patterns_no_match[of "included_of rs" mm b d True] by (auto simp: Let_def)
qed

text \<open>
  C1.  For every branch name, ruleset map and default branch name,
  \<^verbatim>\<open>getRulesetsApplicableToBranchName\<close> returns nothing when the branch name is empty or the
  map is empty, and otherwise exactly the rulesets of the map, in the map's order, whose
  include list matches the branch name with keywords enabled and whose exclude list does
  not match it with keywords disabled.  A ruleset whose include and exclude lists are both
  empty or absent is never returned.
\<close>

theorem getRulesetsApplicableToBranchName_selects:
  "getRulesetsApplicableToBranchName mm b rulesets d =
     (if b = [] \<or> rulesets = [] then []
      else filter (\<lambda>rs. branchNameMatchesPatterns mm b (included_of rs) d True
                      \<and> \<not> branchNameMatchesPatterns mm b (excluded_of rs) d False)
             (map snd rulesets))
   \<and> (\<forall>rs \<in> set (getRulesetsApplicableToBranchName mm b rulesets d).
         \<not> (no_patterns (included_of rs) \<and> no_patterns (excluded_of rs)))"
  using no_patterns_no_match[of _ mm b d True]
  by (auto simp: getRulesetsApplicableToBranchName_def getRulesets_loop_filter)

theorem getRulesetsApplicableToBranchName_selects_witness:
  "getRulesetsApplicableToBranchName fnmatch_match ''main''
     [(1, \<lparr> current_user_can_bypass = ''never'',
             conditions = Some \<lparr> ref_name = Some \<lparr> include = Some [''~ALL''],
                                                     exclude = Some [''release/*''] \<rparr> \<rparr> \<rparr>),
      (2, \<lparr> current_user_can_bypass = ''always'', conditions = None \<rparr>)]
     (Some ''main'')
   = [\<lparr> current_user_can_bypass = ''never'',
        conditions = Some \<lparr> ref_name = Some \<lparr> include = Some [''~ALL''],
                                                exclude = Some [''release/*''] \<rparr> \<rparr> \<rparr>]
   \<and> getRulesetsApplicableToBranchName fnmatch_match ''release/1.0''
     [(1, \<lparr> current_user_can_bypass = ''never'',
             conditions = Some \<lparr> ref_name = Some \<lparr> include = Some [''~ALL''],
                                                     exclude = Some [''release/*''] \<rparr> \<rparr> \<rparr>),
      (2, \<lparr> current_user_can_bypass = ''always'', conditions = None \<rparr>)]
     (Some ''main'')
   = []"
  using
    getRulesetsApplicableToBranchName_selects [of fnmatch_match "''main''"
      "[(1, \<lparr> current_user_can_bypass = ''never'',
             conditions = Some \<lparr> ref_name = Some \<lparr> include = Some [''~ALL''],
                                                     exclude = Some [''release/*''] \<rparr> \<rparr> \<rparr>),
      (2, \<lparr> current_user_can_bypass = ''always'', conditions = None \<rparr>)]" "Some ''main''"]
    getRulesetsApplicableToBranchName_selects [of fnmatch_match "''release/1.0''"
      "[(1, \<lparr> current_user_can_bypass = ''never'',
             conditions = Some \<lparr> ref_name = Some \<lparr> include = Some [''~ALL''],
                                                     exclude = Some [''release/*''] \<rparr> \<rparr> \<rparr>),
      (2, \<lparr> current_user_can_bypass = ''always'', conditions = None \<rparr>)]" "Some ''main''"]
  by (simp add: branchNameMatchesPatterns_def included_of_def excluded_of_def fnmatch_match_def)

text \<open>
  C5, amended.  With keywords enabled, a pattern list matches a branch name exactly when
  one of its patterns is \<^verbatim>\<open>~ALL\<close>, or is \<^verbatim>\<open>~DEFAULT\<close> while the default branch name is known,
  not empty and equal to the branch name, or is matched against the branch name by the
  glob matcher.  So \<^verbatim>\<open>~ALL\<close> matches every branch name; and \<^verbatim>\<open>~DEFAULT\<close>, which falls
  through to the glob matcher like every other pattern, matches the known default branch
  and, whether the default branch is known or not, the branch names that the glob matcher
  accepts for the pattern \<^verbatim>\<open>~DEFAULT\<close> itself.
\<close>

theorem branchNameMatchesPatterns_include_keywords:
  "branchNameMatchesPatterns mm b (Some ps) d True \<longleftrightarrow>
     (\<exists>p\<in>set ps. p = ''~ALL''
        \<or> (p = ''~DEFAULT'' \<and> b \<noteq> [] \<and> d = Some b)
        \<or> 0 < length (mm [b] p))"
  by (simp add: branchNameMatchesPatterns_def matches_loop_iff)

theorem branchNameMatchesPatterns_include_keywords_witness:
  "branchNameMatchesPatterns fnmatch_match ''feature/x'' (Some [''~ALL'']) None True
   \<and> branchNameMatchesPatterns fnmatch_match ''main'' (Some [''~DEFAULT'']) (Some ''main'') True
   \<and> \<not> branchNameMatchesPatterns fnmatch_match ''feature/x'' (Some [''~DEFAULT''])
         (Some ''main'') True
   \<and> \<not> branchNameMatchesPatterns fnmatch_match ''main'' (Some [''~DEFAULT'']) None True"
  using
    branchNameMatchesPatterns_include_keywords
      [of fnmatch_match "''feature/x''" "[''~ALL'']" None]
    branchNameMatchesPatterns_include_keywords
      [of fnmatch_match "''main''" "[''~DEFAULT'']" "Some ''main''"]
    branchNameMatchesPatterns_include_keywords
      [of fnmatch_match "''feature/x''" "[''~DEFAULT'']" "Some ''main''"]
    branchNameMatchesPatterns_include_keywords
      [of fnmatch_match "''main''" "[''~DEFAULT'']" None]
  by (simp add: fnmatch_match_def)

text \<open>
  A run in which \<^verbatim>\<open>~DEFAULT\<close> matches although the default branch name is unknown: the
  branch name is the string \<^verbatim>\<open>~DEFAULT\<close> itself, which the glob matcher accepts for the
  pattern \<^verbatim>\<open>~DEFAULT\<close>.
\<close>

theorem branchNameMatchesPatterns_default_counterexample:
  "branchNameMatchesPatterns fnmatch_match ''~DEFAULT'' (Some [''~DEFAULT'']) None True"
  by (simp add: branchNameMatchesPatterns_def fnmatch_match_def)

text \<open>
  C6.  With keywords disabled, as in the evaluation of an exclude list, a pattern list
  matches a branch name exactly when the glob matcher matches one of its patterns against
  the branch name; \<^verbatim>\<open>~ALL\<close> and \<^verbatim>\<open>~DEFAULT\<close> are patterns like any other there, and the
  default branch name plays no part.
\<close>

theorem branchNameMatchesPatterns_exclude_literal:
  "branchNameMatchesPatterns mm b (Some ps) d False \<longleftrightarrow>
     (\<exists>p\<in>set ps. 0 < length (mm [b] p))"
  by (simp add: branchNameMatchesPatterns_def matches_loop_iff)

theorem branchNameMatchesPatterns_exclude_literal_witness:
  "\<not> branchNameMatchesPatterns fnmatch_match ''main'' (Some [''~ALL'', ''~DEFAULT''])
       (Some ''main'') False
   \<and> branchNameMatchesPatterns fnmatch_match ''~ALL'' (Some [''~ALL'', ''~DEFAULT''])
       (Some ''main'') False"
  using
    branchNameMatchesPatterns_exclude_literal
      [of fnmatch_match "''main''" "[''~ALL'', ''~DEFAULT'']" "Some ''main''"]
    branchNameMatchesPatterns_exclude_literal
      [of fnmatch_match "''~ALL''" "[''~ALL'', ''~DEFAULT'']" "Some ''main''"]
  by (simp add: fnmatch_match_def)

section \<open>Properties of the metadata matcher\<close>

lemma backslash_meta: "backslash \<in> set metacharacters"
  by (simp add: metacharacters_def)

lemma unquoteMeta_plain:
  "c \<notin> set metacharacters \<Longrightarrow> unquoteMeta (c # r) = map_option (\<lambda>p. c # p) (unquoteMeta r)"
  using backslash_meta by (cases r) auto

lemma unquoteMeta_escaped:
  "d \<in> set metacharacters \<Longrightarrow>
     unquoteMeta (backslash # d # r) = map_option (\<lambda>p. d # p) (unquoteMeta r)"
  by simp

lemma unquoteMeta_bare:
  "c \<in> set metacharacters \<Longrightarrow> c \<noteq> backslash \<Longrightarrow> unquoteMeta (c # r) = None"
  by (cases r) auto

lemma unquoteMeta_quoteMeta_append:
  "unquoteMeta (quoteMeta p @ r) = map_option (\<lambda>q. p @ q) (unquoteMeta r)"
proof (induction p)
  case Nil
  then show ?case by (simp add: quoteMeta_def option.map_ident)
next
  case (Cons a p)
  have q: "quoteMeta (a # p) =
      (if a \<in> set metacharacters then [backslash, a] else [a]) @ quoteMeta p"
    by (simp add: quoteMeta_def)
  show ?case
  proof (cases "a \<in> set metacharacters")
    case True
    then show ?thesis
      using Cons.IH
      by (simp add: q unquoteMeta_escaped option.map_comp comp_def del: unquoteMeta.simps)
  next
    case False
    then show ?thesis
      using Cons.IH
      by (simp add: q unquoteMeta_plain option.map_comp comp_def del: unquoteMeta.simps)
  qed
qed

lemma unquoteMeta_quoteMeta: "unquoteMeta (quoteMeta p) = Some p"
  using unquoteMeta_quoteMeta_append[of p "[]"] by simp

lemma hd_quoteMeta: "hd (quoteMeta p @ ''$'') \<noteq> CHR ''^''"
  by (cases p) (auto simp: quoteMeta_def metacharacters_def backslash_def)

lemma literal_compile_starts:
  "literal_compile (''^'' @ quoteMeta p) = Inr (\<lambda>s. prefix p s)"
proof -
  have "unquoteMeta (CHR ''^'' # quoteMeta p) = None"
    by (rule unquoteMeta_bare) (simp_all add: metacharacters_def backslash_def)
  then show ?thesis
    by (simp add: literal_compile_def unquoteMeta_quoteMeta del: unquoteMeta.simps)
qed

lemma literal_compile_ends:
  "literal_compile (quoteMeta p @ ''$'') = Inr (\<lambda>s. suffix p s)"
proof -
  have d: "unquoteMeta ''$'' = None"
    by (simp add: metacharacters_def)
  have n: "unquoteMeta (quoteMeta p @ ''$'') = None"
    by (simp only: unquoteMeta_quoteMeta_append d option.map)
  show ?thesis
    using hd_quoteMeta[of p] n
    by (simp add: literal_compile_def unquoteMeta_quoteMeta del: unquoteMeta.simps)
qed

lemma literal_compile_contains:
  "literal_compile (''.*'' @ quoteMeta p @ ''.*'') = Inr (\<lambda>s. sublist p s)"
proof -
  have n: "unquoteMeta (CHR ''.'' # CHR ''*'' # quoteMeta p @ ''.*'') = None"
    by (rule unquoteMeta_bare) (simp_all add: metacharacters_def backslash_def)
  show ?thesis
    using n
    by (simp add: literal_compile_def unquoteMeta_quoteMeta del: unquoteMeta.simps)
qed

text \<open>The engine for literals has the semantics of the spec's table.\<close>

lemma literal_RE2JS_semantics: "RE2JS_literal_semantics literal_RE2JS"
  unfolding RE2JS_literal_semantics_def literal_RE2JS_def
  using literal_compile_starts literal_compile_ends literal_compile_contains
  by simp

text \<open>
  C8, amended.  Compiling a pattern-typed rule whose parameters are absent, or whose
  operator is not one of the four recognized ones, does not throw, and the matcher of
  such a rule is false on every string.  With absent parameters \<^verbatim>\<open>toMetadataRule\<close> returns
  \<^verbatim>\<open>undefined\<close>: no entry, hence no description.  With an unrecognized operator it returns
  an entry whose description is the template without a verb: \<^verbatim>\<open>must\<close>, then \<^verbatim>\<open>not\<close> when
  \<^verbatim>\<open>negate\<close> is set, then the pattern between double quotes.
\<close>

theorem toMetadataRule_inert:
  "toMatcher re None = Inr (\<lambda>_. False)
   \<and> (parameters r = None \<longrightarrow> toMetadataRule re (Some r) enf = Inr None)
   \<and> (parameters r = Some ps \<and> operator ps = OtherOperator name \<longrightarrow>
        toMatcher re (Some ps) = Inr (\<lambda>_. False)
      \<and> toMetadataRule re (Some r) enf =
          Inr (Some \<lparr> enforced = enf, matcher = (\<lambda>_. False),
                      humanDescription =
                        ''must '' @ (if negate ps then ''not '' else [])
                          @ [dquote] @ pattern ps @ [dquote],
                      rulesetId = ruleset_id r \<rparr>))"
  by (auto simp: toMatcher_def toMatcher_regex_def toMetadataRule_def toHumanDescription_def)

theorem toMetadataRule_inert_witness:
  "toMetadataRule literal_RE2JS
     (Some \<lparr> ruleset_id = 3, type = CommitMessagePattern, parameters = None \<rparr>) Bypass
   = Inr None
   \<and> toMatcher literal_RE2JS
       (Some \<lparr> operator = OtherOperator ''matches'', pattern = ''x'', negate = True \<rparr>)
     = Inr (\<lambda>_. False)
   \<and> map_sum id (map_option humanDescription)
       (toMetadataRule literal_RE2JS
          (Some \<lparr> ruleset_id = 3, type = CommitMessagePattern,
                  parameters = Some \<lparr> operator = OtherOperator ''matches'', pattern = ''x'',
                                      negate = True \<rparr> \<rparr>) Bypass)
     = Inr (Some (''must not '' @ [dquote] @ ''x'' @ [dquote]))"
  using
    toMetadataRule_inert [of literal_RE2JS
      "\<lparr> ruleset_id = 3, type = CommitMessagePattern, parameters = None \<rparr>"
      Bypass undefined undefined]
    toMetadataRule_inert [of literal_RE2JS
      "\<lparr> ruleset_id = 3, type = CommitMessagePattern,
         parameters = Some \<lparr> operator = OtherOperator ''matches'', pattern = ''x'',
                             negate = True \<rparr> \<rparr>"
      Bypass "\<lparr> operator = OtherOperator ''matches'', pattern = ''x'', negate = True \<rparr>"
      "''matches''"]
  by simp

text \<open>
  A rule with an unrecognized operator for which a description is produced: the entry
  that \<^verbatim>\<open>toMetadataRule\<close> returns carries the description \<^verbatim>\<open>must\<close> followed by the quoted
  pattern.
\<close>

theorem toMetadataRule_description_counterexample:
  "map_sum id (map_option humanDescription)
     (toMetadataRule literal_RE2JS
        (Some \<lparr> ruleset_id = 1, type = CommitMessagePattern,
                parameters = Some \<lparr> operator = OtherOperator ''matches'', pattern = ''x'',
                                    negate = False \<rparr> \<rparr>) Enforced)
   = Inr (Some (''must '' @ [dquote] @ ''x'' @ [dquote]))"
  by (simp add: toMetadataRule_def toMatcher_def toMatcher_regex_def toHumanDescription_def)

text \<open>
  C9.  For each of the four recognized operators and every pattern, the matcher compiled
  with \<^verbatim>\<open>negate\<close> set is the pointwise negation of the matcher compiled with \<^verbatim>\<open>negate\<close>
  unset: on every candidate string one is true exactly when the other is false.  (When
  the regular expression does not compile, both compilations throw the same exception.)
\<close>

theorem toMatcher_negate_inverts:
  assumes "operator ps \<in> {StartsWith, EndsWith, Contains, RegexMatch}"
  shows "(\<exists>m. toMatcher re (Some (ps\<lparr>negate := False\<rparr>)) = Inr m
            \<and> toMatcher re (Some (ps\<lparr>negate := True\<rparr>)) = Inr (\<lambda>x. \<not> m x))
       \<or> (\<exists>e. toMatcher re (Some (ps\<lparr>negate := False\<rparr>)) = Inl e
            \<and> toMatcher re (Some (ps\<lparr>negate := True\<rparr>)) = Inl e)"
  using assms
  by (auto simp: toMatcher_def toMatcher_regex_def map_sum_def split: sum.splits)

theorem toMatcher_negate_inverts_witness:
  "operator \<lparr> operator = EndsWith, pattern = ''@example.com'', negate = False \<rparr>
     \<in> {StartsWith, EndsWith, Contains, RegexMatch}
   \<and> toMatcher literal_RE2JS
       (Some \<lparr> operator = EndsWith, pattern = ''@example.com'', negate = False \<rparr>)
     = Inr (\<lambda>s. suffix ''@example.com'' s)
   \<and> toMatcher literal_RE2JS
       (Some \<lparr> operator = EndsWith, pattern = ''@example.com'', negate = True \<rparr>)
     = Inr (\<lambda>s. \<not> suffix ''@example.com'' s)"
proof -
  have q: "toMatcher literal_RE2JS
       (Some \<lparr> operator = EndsWith, pattern = ''@example.com'', negate = False \<rparr>)
     = Inr (\<lambda>s. suffix ''@example.com'' s)"
    using literal_compile_ends [of "''@example.com''"]
    by (simp add: toMatcher_def toMatcher_regex_def literal_RE2JS_def)
  show ?thesis
    using toMatcher_negate_inverts
        [of "\<lparr> operator = EndsWith, pattern = ''@example.com'', negate = False \<rparr>"
        literal_RE2JS] q
    by auto
qed

text \<open>
  C10.  With a regular-expression engine that gives the quoted-literal expressions their
  meaning (begins with, ends with, contains), the matcher compiled without \<^verbatim>\<open>negate\<close> from
  the empty pattern and the operator starts-with, ends-with or contains is true on every
  candidate string: such a rule constrains nothing.
\<close>

theorem toMatcher_empty_pattern:
  assumes "RE2JS_literal_semantics re"
    and "operator ps \<in> {StartsWith, EndsWith, Contains}"
    and "pattern ps = []"
    and "\<not> negate ps"
  shows "\<exists>m. toMatcher re (Some ps) = Inr m \<and> (\<forall>x. m x)"
  using assms
  by (auto simp: RE2JS_literal_semantics_def toMatcher_def toMatcher_regex_def)

theorem toMatcher_empty_pattern_witness:
  "RE2JS_literal_semantics literal_RE2JS
   \<and> (\<exists>m. toMatcher literal_RE2JS
             (Some \<lparr> operator = Contains, pattern = [], negate = False \<rparr>) = Inr m
          \<and> (\<forall>x. m x))"
  using literal_RE2JS_semantics
    toMatcher_empty_pattern
      [of literal_RE2JS "\<lparr> operator = Contains, pattern = [], negate = False \<rparr>"]
  by simp

end
